theory Spec2Isabelle
  imports Main
begin

section \<open>Data model of package uow\<close>

text \<open>
  The three error values declared by the package, and \<open>ErrExternal\<close> for every other
  error value (an error of the database driver or of the caller's function), named by
  its message. Go's \<open>nil\<close> error is \<open>None\<close> of \<open>error option\<close>.
\<close>

datatype error =
    ErrRepositoryNotRegistered
  | ErrRepositoryAlreadyRegistered
  | ErrInvalidRepositoryType
  | ErrExternal string

text \<open>A Go call either returns its value or panics; a panic unwinds to the caller.\<close>

datatype 'a outcome = Returned 'a | Panicked string

type_synonym RepositoryName = string

text \<open>
  \<open>type RepositoryFactory func(tx *sql.Tx) Repository\<close>: a Go function, so it may change
  the state of the resources outside the package (\<open>'s\<close>: the database, the objects it
  allocates) and it may panic (a \<open>nil\<close> function value panics when called).
  \<open>'tx\<close> is the pointer \<open>*sql.Tx\<close>, \<open>'r\<close> the values of \<open>Repository\<close> (\<open>any\<close>).
\<close>

type_synonym ('tx, 's, 'r) RepositoryFactory = "'tx \<Rightarrow> 's \<Rightarrow> 'r outcome \<times> 's"

text \<open>
  A Go map is a reference: \<open>map[RepositoryName]RepositoryFactory\<close> values are addresses
  into a store of maps, and \<open>None\<close> is the \<open>nil\<close> map. \<open>make\<close> takes the next unused
  address.
\<close>

type_synonym map_ref = nat

record ('tx, 's, 'r) world =
  maps :: "map_ref \<Rightarrow> (RepositoryName \<rightharpoonup> ('tx, 's, 'r) RepositoryFactory)"
  next_ref :: map_ref
  ext :: 's

definition map_lookup ::
  "('tx, 's, 'r) world \<Rightarrow> map_ref option \<Rightarrow> RepositoryName
    \<Rightarrow> ('tx, 's, 'r) RepositoryFactory option" where
  \<comment> \<open>\<open>v, ok := m[name]\<close>; reading the \<open>nil\<close> map finds nothing.\<close>
  "map_lookup w m name = (case m of None \<Rightarrow> None | Some r \<Rightarrow> maps w r name)"

definition map_store ::
  "('tx, 's, 'r) world \<Rightarrow> map_ref \<Rightarrow> RepositoryName \<Rightarrow> ('tx, 's, 'r) RepositoryFactory
    \<Rightarrow> ('tx, 's, 'r) world" where
  \<comment> \<open>\<open>m[name] = factory\<close> on a map that is not \<open>nil\<close>.\<close>
  "map_store w r name factory = w\<lparr>maps := (maps w)(r := (maps w r)(name \<mapsto> factory))\<rparr>"

definition map_delete ::
  "('tx, 's, 'r) world \<Rightarrow> map_ref option \<Rightarrow> RepositoryName \<Rightarrow> ('tx, 's, 'r) world" where
  \<comment> \<open>\<open>delete(m, name)\<close>; a no-op on the \<open>nil\<close> map.\<close>
  "map_delete w m name =
     (case m of None \<Rightarrow> w
      | Some r \<Rightarrow> w\<lparr>maps := (maps w)(r := (maps w r)(name := None))\<rparr>)"

definition make_map :: "('tx, 's, 'r) world \<Rightarrow> map_ref \<times> ('tx, 's, 'r) world" where
  \<comment> \<open>\<open>make(map[RepositoryName]RepositoryFactory)\<close>: a new, empty map.\<close>
  "make_map w =
     (next_ref w,
      w\<lparr>maps := (maps w)(next_ref w := Map.empty), next_ref := Suc (next_ref w)\<rparr>)"

record 'tx Transaction =
  tx :: 'tx
  repositories :: "map_ref option"

record 'db UnitOfWork =
  db :: 'db
  repositories :: "map_ref option"

section \<open>Transaction\<close>

definition NewTransaction :: "'tx \<Rightarrow> map_ref option \<Rightarrow> 'tx Transaction" where
  "NewTransaction txh repos = \<lparr>tx = txh, repositories = repos\<rparr>"

definition Get ::
  "'tx Transaction \<Rightarrow> RepositoryName \<Rightarrow> ('tx, 's, 'r) world
    \<Rightarrow> (error + 'r) outcome \<times> ('tx, 's, 'r) world" where
  "Get t name w =
     (case map_lookup w (Transaction.repositories t) name of
        Some repository \<Rightarrow>
          (case repository (tx t) (ext w) of
             (Returned r, e) \<Rightarrow> (Returned (Inr r), w\<lparr>ext := e\<rparr>)
           | (Panicked p, e) \<Rightarrow> (Panicked p, w\<lparr>ext := e\<rparr>))
      | None \<Rightarrow> (Returned (Inl ErrRepositoryNotRegistered), w))"

text \<open>
  \<open>GetAs[T any](t TX, name)\<close>: \<open>t\<close> is any implementation of the interface \<open>TX\<close>, given
  by its method \<open>Get\<close>; \<open>as_T\<close> is the type assertion \<open>repository.(T)\<close>, \<open>None\<close> when the
  dynamic type of the value is not \<open>T\<close> (the \<open>nil\<close> interface value has none).
\<close>

definition GetAs ::
  "('r \<Rightarrow> 'a option) \<Rightarrow> (RepositoryName \<Rightarrow> 'w \<Rightarrow> (error + 'r) outcome \<times> 'w)
    \<Rightarrow> RepositoryName \<Rightarrow> 'w \<Rightarrow> (error + 'a) outcome \<times> 'w" where
  "GetAs as_T t_Get name w =
     (case t_Get name w of
        (Panicked p, w1) \<Rightarrow> (Panicked p, w1)
      | (Returned (Inl err), w1) \<Rightarrow> (Returned (Inl err), w1)
      | (Returned (Inr repository), w1) \<Rightarrow>
          (case as_T repository of
             None \<Rightarrow> (Returned (Inl ErrInvalidRepositoryType), w1)
           | Some res \<Rightarrow> (Returned (Inr res), w1)))"

section \<open>UnitOfWork\<close>

text \<open>
  The methods have the pointer receiver \<open>u *UnitOfWork\<close>, taken not to be \<open>nil\<close>: they
  read the struct \<open>u\<close> points to, and \<open>Clear\<close>, the only one that assigns to a field,
  returns the struct updated. The map itself is changed in the store.
\<close>

definition NewUnitOfWork ::
  "'db \<Rightarrow> ('tx, 's, 'r) world \<Rightarrow> 'db UnitOfWork \<times> ('tx, 's, 'r) world" where
  "NewUnitOfWork d w =
     (case make_map w of (r, w1) \<Rightarrow> (\<lparr>db = d, repositories = Some r\<rparr>, w1))"

definition Register ::
  "'db UnitOfWork \<Rightarrow> RepositoryName \<Rightarrow> ('tx, 's, 'r) RepositoryFactory
    \<Rightarrow> ('tx, 's, 'r) world \<Rightarrow> error option outcome \<times> ('tx, 's, 'r) world" where
  "Register u name factory w =
     (case map_lookup w (UnitOfWork.repositories u) name of
        Some _ \<Rightarrow> (Returned (Some ErrRepositoryAlreadyRegistered), w)
      | None \<Rightarrow>
          (case UnitOfWork.repositories u of
             None \<Rightarrow> (Panicked ''assignment to entry in nil map'', w)
           | Some r \<Rightarrow> (Returned None, map_store w r name factory)))"

definition Remove ::
  "'db UnitOfWork \<Rightarrow> RepositoryName \<Rightarrow> ('tx, 's, 'r) world
    \<Rightarrow> error option \<times> ('tx, 's, 'r) world" where
  "Remove u name w =
     (case map_lookup w (UnitOfWork.repositories u) name of
        None \<Rightarrow> (Some ErrRepositoryNotRegistered, w)
      | Some _ \<Rightarrow> (None, map_delete w (UnitOfWork.repositories u) name))"

definition Has :: "'db UnitOfWork \<Rightarrow> RepositoryName \<Rightarrow> ('tx, 's, 'r) world \<Rightarrow> bool" where
  "Has u name w =
     (case map_lookup w (UnitOfWork.repositories u) name of None \<Rightarrow> False | Some _ \<Rightarrow> True)"

definition Clear ::
  "'db UnitOfWork \<Rightarrow> ('tx, 's, 'r) world \<Rightarrow> 'db UnitOfWork \<times> ('tx, 's, 'r) world" where
  \<comment> \<open>The receiver is a pointer: the updated struct is returned with the store.\<close>
  "Clear u w =
     (case make_map w of (r, w1) \<Rightarrow> (u\<lparr>UnitOfWork.repositories := Some r\<rparr>, w1))"

section \<open>The connection source\<close>

text \<open>
  \<open>database/sql\<close> is outside the package: \<open>(*sql.DB).BeginTx\<close>, \<open>(*sql.Tx).Commit\<close>
  and \<open>(*sql.Tx).Rollback\<close> are parameters, acting on the external state \<open>'s\<close>
  and taken to return (a \<open>BeginTx\<close> that fails returns its error).
  \<open>'c\<close> is \<open>context.Context\<close>.
\<close>

record ('db, 'tx, 'c, 's) sql =
  BeginTx :: "'db \<Rightarrow> 'c \<Rightarrow> 's \<Rightarrow> (error + 'tx) \<times> 's"
  Commit :: "'tx \<Rightarrow> 's \<Rightarrow> error option \<times> 's"
  Rollback :: "'tx \<Rightarrow> 's \<Rightarrow> error option \<times> 's"

definition db_BeginTx ::
  "('db, 'tx, 'c, 's) sql \<Rightarrow> 'db \<Rightarrow> 'c \<Rightarrow> ('tx, 's, 'r) world
    \<Rightarrow> (error + 'tx) \<times> ('tx, 's, 'r) world" where
  "db_BeginTx q d ctx w = (case BeginTx q d ctx (ext w) of (b, e) \<Rightarrow> (b, w\<lparr>ext := e\<rparr>))"

definition tx_Commit ::
  "('db, 'tx, 'c, 's) sql \<Rightarrow> 'tx \<Rightarrow> ('tx, 's, 'r) world
    \<Rightarrow> error option \<times> ('tx, 's, 'r) world" where
  "tx_Commit q txh w = (case Commit q txh (ext w) of (err, e) \<Rightarrow> (err, w\<lparr>ext := e\<rparr>))"

definition tx_Rollback ::
  "('db, 'tx, 'c, 's) sql \<Rightarrow> 'tx \<Rightarrow> ('tx, 's, 'r) world
    \<Rightarrow> error option \<times> ('tx, 's, 'r) world" where
  "tx_Rollback q txh w = (case Rollback q txh (ext w) of (err, e) \<Rightarrow> (err, w\<lparr>ext := e\<rparr>))"

section \<open>Do\<close>

text \<open>
  The calls \<open>Do\<close> makes, in order. \<open>fn\<close> is the caller's function: it acts on the whole
  store (it may use the repositories, and register or remove factories) and may panic.
\<close>

datatype 'tx call =
    CallBeginTx
  | CallNewTransaction 'tx
  | CallFn 'tx
  | CallCommit 'tx
  | CallRollback 'tx

type_synonym ('tx, 'c, 's, 'r) work =
  "'c \<Rightarrow> 'tx Transaction \<Rightarrow> ('tx, 's, 'r) world \<Rightarrow> error option outcome \<times> ('tx, 's, 'r) world"

text \<open>The statements of \<open>Do\<close> after \<open>defer tx.Rollback()\<close>, up to each of their exits.\<close>

definition Do_body ::
  "('db, 'tx, 'c, 's) sql \<Rightarrow> 'db UnitOfWork \<Rightarrow> 'c \<Rightarrow> ('tx, 'c, 's, 'r) work \<Rightarrow> 'tx
    \<Rightarrow> ('tx, 's, 'r) world \<Rightarrow> error option outcome \<times> ('tx, 's, 'r) world \<times> 'tx call list" where
  "Do_body q u ctx fn txh w =
     (case fn ctx (NewTransaction txh (UnitOfWork.repositories u)) w of
        (Panicked p, w1) \<Rightarrow> (Panicked p, w1, [CallNewTransaction txh, CallFn txh])
      | (Returned (Some err), w1) \<Rightarrow>
          (Returned (Some err), w1, [CallNewTransaction txh, CallFn txh])
      | (Returned None, w1) \<Rightarrow>
          (case tx_Commit q txh w1 of
             (err, w2) \<Rightarrow>
               (Returned err, w2, [CallNewTransaction txh, CallFn txh, CallCommit txh])))"

text \<open>
  \<open>Do\<close>: when \<open>BeginTx\<close> fails it returns at once; otherwise the deferred
  \<open>tx.Rollback()\<close> runs when the body is left, by a return or by a panic, and its
  result is dropped.
\<close>

definition Do ::
  "('db, 'tx, 'c, 's) sql \<Rightarrow> 'db UnitOfWork \<Rightarrow> 'c \<Rightarrow> ('tx, 'c, 's, 'r) work
    \<Rightarrow> ('tx, 's, 'r) world \<Rightarrow> error option outcome \<times> ('tx, 's, 'r) world \<times> 'tx call list" where
  "Do q u ctx fn w =
     (case db_BeginTx q (db u) ctx w of
        (Inl err, w1) \<Rightarrow> (Returned (Some err), w1, [CallBeginTx])
      | (Inr txh, w1) \<Rightarrow>
          (case Do_body q u ctx fn txh w1 of
             (res, w2, calls) \<Rightarrow>
               (res, snd (tx_Rollback q txh w2), CallBeginTx # calls @ [CallRollback txh])))"

text \<open>
  A \<open>UnitOfWork\<close> as \<open>NewUnitOfWork\<close> and \<open>Clear\<close> leave it: its map is not \<open>nil\<close>
  and is allocated in the store.
\<close>

definition uow_ok :: "'db UnitOfWork \<Rightarrow> ('tx, 's, 'r) world \<Rightarrow> bool" where
  "uow_ok u w =
     (case UnitOfWork.repositories u of None \<Rightarrow> False | Some r \<Rightarrow> r < next_ref w)"

text \<open>
  What \<open>Do\<close> relies on when it leaves the rollback deferred after a commit: on a handle
  whose \<open>Commit\<close> has returned \<open>nil\<close>, \<open>Rollback\<close> changes nothing (\<open>database/sql\<close>
  answers \<open>ErrTxDone\<close>).
\<close>

definition Rollback_noop_after_Commit :: "('db, 'tx, 'c, 's) sql \<Rightarrow> bool" where
  "Rollback_noop_after_Commit q =
     (\<forall>txh e e'. Commit q txh e = (None, e') \<longrightarrow> snd (Rollback q txh e') = e')"

section \<open>An example connection source, and the repositories of the tests\<close>

text \<open>
  A connection source with the behaviour \<open>database/sql\<close> documents: a handle is done
  once \<open>Commit\<close> or \<open>Rollback\<close> has been called on it, and both answer \<open>ErrTxDone\<close>
  on a handle that is done. Database \<open>0\<close> is closed; \<open>commit_answer\<close> is what the
  driver answers to a commit.
\<close>

record dbstate =
  began :: nat
  finished :: "nat list"
  committed :: "nat list"
  rolled_back :: "nat list"
  allocated :: nat

definition ErrTxDone :: error where
  "ErrTxDone = ErrExternal ''sql: transaction has already been committed or rolled back''"

definition example_sql :: "error option \<Rightarrow> (nat, nat, nat, dbstate) sql" where
  "example_sql commit_answer =
     \<lparr>BeginTx = (\<lambda>d c e.
        if d = 0 then (Inl (ErrExternal ''sql: database is closed''), e)
        else (Inr (began e), e\<lparr>began := Suc (began e)\<rparr>)),
      Commit = (\<lambda>h e.
        if h \<in> set (finished e) then (Some ErrTxDone, e)
        else (case commit_answer of
                None \<Rightarrow> (None, e\<lparr>finished := h # finished e, committed := h # committed e\<rparr>)
              | Some err \<Rightarrow> (Some err, e\<lparr>finished := h # finished e\<rparr>))),
      Rollback = (\<lambda>h e.
        if h \<in> set (finished e) then (Some ErrTxDone, e)
        else (None, e\<lparr>finished := h # finished e, rolled_back := h # rolled_back e\<rparr>))\<rparr>"

text \<open>
  The repositories of the tests: \<open>&ProductRepository{tx: tx}\<close> and
  \<open>&OrderRepository{tx: tx}\<close> are new objects, here the address of the object and its
  field \<open>tx\<close>.
\<close>

datatype repo = ProductRepository nat nat | OrderRepository nat nat

definition productRepositoryFactory :: "(nat, dbstate, repo) RepositoryFactory" where
  "productRepositoryFactory h e =
     (Returned (ProductRepository (allocated e) h), e\<lparr>allocated := Suc (allocated e)\<rparr>)"

definition orderRepositoryFactory :: "(nat, dbstate, repo) RepositoryFactory" where
  "orderRepositoryFactory h e =
     (Returned (OrderRepository (allocated e) h), e\<lparr>allocated := Suc (allocated e)\<rparr>)"

definition as_ProductRepository :: "repo \<Rightarrow> (nat \<times> nat) option" where
  \<comment> \<open>\<open>repository.(*ProductRepository)\<close>\<close>
  "as_ProductRepository r =
     (case r of ProductRepository a h \<Rightarrow> Some (a, h) | OrderRepository a h \<Rightarrow> None)"

definition world0 :: "(nat, dbstate, repo) world" where
  "world0 =
     \<lparr>maps = (\<lambda>_. Map.empty), next_ref = 0,
      ext = \<lparr>began = 0, finished = [], committed = [], rolled_back = [], allocated = 0\<rparr>\<rparr>"

text \<open>A unit of work on database \<open>d\<close> with both repositories of the tests registered.\<close>

definition uow1 :: "nat \<Rightarrow> nat UnitOfWork" where
  "uow1 d = \<lparr>db = d, repositories = Some 0\<rparr>"

definition world1 :: "(nat, dbstate, repo) world" where
  "world1 =
     world0\<lparr>maps := (\<lambda>_. Map.empty)
               (0 := [''ProductRepository'' \<mapsto> productRepositoryFactory,
                      ''OrderRepository'' \<mapsto> orderRepositoryFactory]),
            next_ref := 1\<rparr>"

text \<open>Three caller functions: one that fails, one that succeeds, one that panics.\<close>

definition fn_fails :: "(nat, nat, dbstate, repo) work" where
  "fn_fails c t w =
     (case Get t ''OrderRepository'' w of
        (Returned (Inr r), w1) \<Rightarrow> (Returned (Some (ErrExternal ''foreign key constraint fails'')), w1)
      | (Returned (Inl err), w1) \<Rightarrow> (Returned (Some err), w1)
      | (Panicked p, w1) \<Rightarrow> (Panicked p, w1))"

definition fn_succeeds :: "(nat, nat, dbstate, repo) work" where
  "fn_succeeds c t w =
     (case Get t ''ProductRepository'' w of
        (Returned (Inr r), w1) \<Rightarrow> (Returned None, w1)
      | (Returned (Inl err), w1) \<Rightarrow> (Returned (Some err), w1)
      | (Panicked p, w1) \<Rightarrow> (Panicked p, w1))"

definition fn_panics :: "(nat, nat, dbstate, repo) work" where
  "fn_panics c t w = (Panicked ''runtime error: invalid memory address'', w)"

text \<open>A scope on the handle \<open>5\<close> that holds the map of \<open>uow1\<close>.\<close>

definition scope1 :: "nat Transaction" where
  "scope1 = NewTransaction 5 (UnitOfWork.repositories (uow1 1))"

text \<open>\<open>world1\<close> after \<open>BeginTx\<close> has handed out the handle \<open>0\<close>.\<close>

definition world2 :: "(nat, dbstate, repo) world" where
  "world2 = world1\<lparr>ext := (ext world1)\<lparr>began := 1\<rparr>\<rparr>"

section \<open>Basic facts\<close>

lemmas example_defs =
  world0_def world1_def world2_def uow1_def scope1_def example_sql_def ErrTxDone_def
  productRepositoryFactory_def orderRepositoryFactory_def as_ProductRepository_def
  fn_fails_def fn_succeeds_def fn_panics_def

lemmas store_defs = map_lookup_def map_store_def map_delete_def make_map_def

lemma NewUnitOfWork_ok: "NewUnitOfWork d w = (u, w') \<Longrightarrow> uow_ok u w'"
  by (auto simp: NewUnitOfWork_def make_map_def uow_ok_def)

lemma Clear_ok: "Clear u w = (u', w') \<Longrightarrow> uow_ok u' w'"
  by (auto simp: Clear_def make_map_def uow_ok_def)

lemma Register_ok: "uow_ok u w \<Longrightarrow> uow_ok u (snd (Register u n f w))"
  by (auto simp: Register_def store_defs uow_ok_def split: option.splits)

lemma Remove_ok: "uow_ok u w \<Longrightarrow> uow_ok u (snd (Remove u n w))"
  by (auto simp: Remove_def store_defs uow_ok_def split: option.splits)

text \<open>On the zero value of the struct, whose map is \<open>nil\<close>, \<open>Register\<close> panics.\<close>

lemma Register_nil_panics:
  "UnitOfWork.repositories u = None \<Longrightarrow>
     Register u n f w = (Panicked ''assignment to entry in nil map'', w)"
  by (simp add: Register_def map_lookup_def)

lemma Get_keeps_store:
  "maps (snd (Get t n w)) = maps w \<and> next_ref (snd (Get t n w)) = next_ref w"
  by (auto simp: Get_def split: option.splits prod.splits outcome.splits)

lemma example_sql_noop: "Rollback_noop_after_Commit (example_sql ca)"
  by (auto simp: Rollback_noop_after_Commit_def example_sql_def
           split: if_splits option.splits)

lemma uow1_ok: "uow_ok (uow1 d) world1"
  by (simp add: uow_ok_def uow1_def world1_def world0_def)

text \<open>
  The unit of work and the store of the examples are the ones \<open>NewUnitOfWork\<close> and
  the two \<open>Register\<close> calls of the tests make from the empty store.
\<close>

lemma world1_built:
  "fst (NewUnitOfWork d world0) = uow1 d
   \<and> snd (Register (uow1 d) ''OrderRepository'' orderRepositoryFactory
        (snd (Register (uow1 d) ''ProductRepository'' productRepositoryFactory
          (snd (NewUnitOfWork d world0))))) = world1"
  by (simp add: NewUnitOfWork_def Register_def store_defs uow1_def world1_def world0_def)

lemma example_begin:
  "db_BeginTx (example_sql ca) (db (uow1 1)) c world1 = (Inr 0, world2)"
  by (simp add: db_BeginTx_def example_defs)

lemma example_begin_closed:
  "db_BeginTx (example_sql ca) (db (uow1 0)) c world1
     = (Inl (ErrExternal ''sql: database is closed''), world1)"
  by (simp add: db_BeginTx_def example_defs)

section \<open>The registry\<close>

text \<open>
  C6. On a unit of work whose map is not \<open>nil\<close> (every one made by \<open>NewUnitOfWork\<close>):
  when the name is bound, \<open>Register\<close> returns \<open>ErrRepositoryAlreadyRegistered\<close> and
  changes nothing; when it is unused, \<open>Register\<close> returns \<open>nil\<close>, the name is bound to
  the factory given, \<open>Has\<close> is true of it, no other name changes, and registering the
  name again fails with \<open>ErrRepositoryAlreadyRegistered\<close>.
\<close>

theorem Register_contract:
  assumes "UnitOfWork.repositories u \<noteq> None"
  shows "if Has u n w
         then Register u n f w = (Returned (Some ErrRepositoryAlreadyRegistered), w)
         else fst (Register u n f w) = Returned None
            \<and> map_lookup (snd (Register u n f w)) (UnitOfWork.repositories u) n = Some f
            \<and> Has u n (snd (Register u n f w))
            \<and> (\<forall>m. m \<noteq> n \<longrightarrow>
                 map_lookup (snd (Register u n f w)) (UnitOfWork.repositories u) m
                   = map_lookup w (UnitOfWork.repositories u) m)
            \<and> Register u n g (snd (Register u n f w))
                 = (Returned (Some ErrRepositoryAlreadyRegistered), snd (Register u n f w))"
  using assms
  by (auto simp: Has_def Register_def store_defs split: option.splits)

text \<open>
  C6, at the unit of work of the tests: \<open>StockRepository\<close> is unused and is registered,
  \<open>OrderRepository\<close> is bound and the store is left as it was.
\<close>

theorem Register_contract_witness:
  "UnitOfWork.repositories (uow1 1) \<noteq> None
   \<and> \<not> Has (uow1 1) ''StockRepository'' world1
   \<and> fst (Register (uow1 1) ''StockRepository'' productRepositoryFactory world1) = Returned None
   \<and> Has (uow1 1) ''StockRepository''
        (snd (Register (uow1 1) ''StockRepository'' productRepositoryFactory world1))
   \<and> Has (uow1 1) ''OrderRepository'' world1
   \<and> Register (uow1 1) ''OrderRepository'' productRepositoryFactory world1
        = (Returned (Some ErrRepositoryAlreadyRegistered), world1)"
proof -
  have not_nil: "UnitOfWork.repositories (uow1 1) \<noteq> None"
    by (simp add: uow1_def)
  have unused: "\<not> Has (uow1 1) ''StockRepository'' world1"
    by (simp add: Has_def map_lookup_def uow1_def world1_def world0_def)
  have bound: "Has (uow1 1) ''OrderRepository'' world1"
    by (simp add: Has_def map_lookup_def uow1_def world1_def world0_def)
  show ?thesis
    using not_nil unused bound
      Register_contract [OF not_nil, of "''StockRepository''" world1 productRepositoryFactory]
      Register_contract [OF not_nil, of "''OrderRepository''" world1 productRepositoryFactory]
    by simp
qed

text \<open>
  C8. When the name is bound, \<open>Remove\<close> returns \<open>nil\<close>, the name is no longer bound and
  no other name changes; when it is not bound, \<open>Remove\<close> returns
  \<open>ErrRepositoryNotRegistered\<close> and the store is unchanged.
\<close>

theorem Remove_contract:
  "if Has u n w
   then fst (Remove u n w) = None
      \<and> \<not> Has u n (snd (Remove u n w))
      \<and> (\<forall>m. m \<noteq> n \<longrightarrow>
           map_lookup (snd (Remove u n w)) (UnitOfWork.repositories u) m
             = map_lookup w (UnitOfWork.repositories u) m)
   else Remove u n w = (Some ErrRepositoryNotRegistered, w)"
  by (auto simp: Has_def Remove_def store_defs split: option.splits)

text \<open>
  C8, at the unit of work of the tests: removing \<open>OrderRepository\<close> succeeds and keeps
  \<open>ProductRepository\<close>; removing \<open>StockRepository\<close> fails.
\<close>

theorem Remove_contract_witness:
  "Has (uow1 1) ''OrderRepository'' world1
   \<and> fst (Remove (uow1 1) ''OrderRepository'' world1) = None
   \<and> \<not> Has (uow1 1) ''OrderRepository'' (snd (Remove (uow1 1) ''OrderRepository'' world1))
   \<and> Has (uow1 1) ''ProductRepository'' (snd (Remove (uow1 1) ''OrderRepository'' world1))
   \<and> \<not> Has (uow1 1) ''StockRepository'' world1
   \<and> Remove (uow1 1) ''StockRepository'' world1 = (Some ErrRepositoryNotRegistered, world1)"
proof -
  have bound: "Has (uow1 1) ''OrderRepository'' world1"
    by (simp add: Has_def map_lookup_def uow1_def world1_def world0_def)
  have other: "Has (uow1 1) ''ProductRepository'' world1"
    by (simp add: Has_def map_lookup_def uow1_def world1_def world0_def)
  have unused: "\<not> Has (uow1 1) ''StockRepository'' world1"
    by (simp add: Has_def map_lookup_def uow1_def world1_def world0_def)
  have neq: "''ProductRepository'' \<noteq> ''OrderRepository''"
    by simp
  show ?thesis
    using bound other unused neq
      Remove_contract [of "uow1 1" "''OrderRepository''" world1]
      Remove_contract [of "uow1 1" "''StockRepository''" world1]
    by (simp add: Has_def)
qed

text \<open>
  C9. \<open>Clear\<close> has no error result and cannot panic. After it, on any unit of work and
  any store: the database is the same, the map is not \<open>nil\<close>, \<open>Has\<close> is false of every
  name, and \<open>Register\<close> of any name returns \<open>nil\<close> and binds it.
\<close>

theorem Clear_contract:
  "case Clear u w of (u', w') \<Rightarrow>
     db u' = db u
   \<and> UnitOfWork.repositories u' \<noteq> None
   \<and> (\<forall>n. \<not> Has u' n w')
   \<and> (\<forall>n f. fst (Register u' n f w') = Returned None
           \<and> Has u' n (snd (Register u' n f w')))"
  by (auto simp: Clear_def Has_def Register_def store_defs split: option.splits)

text \<open>
  C9, at the unit of work of the tests: both names were registered, neither is after
  \<open>Clear\<close>, and \<open>ProductRepository\<close> can be registered again.
\<close>

theorem Clear_contract_witness:
  "Has (uow1 1) ''ProductRepository'' world1
   \<and> Has (uow1 1) ''OrderRepository'' world1
   \<and> \<not> Has (fst (Clear (uow1 1) world1)) ''ProductRepository'' (snd (Clear (uow1 1) world1))
   \<and> \<not> Has (fst (Clear (uow1 1) world1)) ''OrderRepository'' (snd (Clear (uow1 1) world1))
   \<and> fst (Register (fst (Clear (uow1 1) world1)) ''ProductRepository''
             productRepositoryFactory (snd (Clear (uow1 1) world1))) = Returned None"
proof -
  have bound: "Has (uow1 1) ''ProductRepository'' world1"
              "Has (uow1 1) ''OrderRepository'' world1"
    by (simp_all add: Has_def map_lookup_def uow1_def world1_def world0_def)
  show ?thesis
    using bound Clear_contract [of "uow1 1" world1]
    by (simp add: split_beta)
qed

section \<open>The scope\<close>

text \<open>
  C5. \<open>Get\<close> on a name that the scope's map does not bind returns
  \<open>ErrRepositoryNotRegistered\<close> and changes nothing. On a name bound to \<open>f\<close> it calls
  \<open>f\<close> with the scope's handle: it returns what \<open>f\<close> returns and leaves the state as
  \<open>f\<close> leaves it (and panics when \<open>f\<close> panics). A second \<open>Get\<close> of the name calls \<open>f\<close>
  again, with the same handle, on the state the first call left, and returns the
  result of this second call: nothing is cached.
\<close>

theorem Get_contract:
  "(map_lookup w (Transaction.repositories t) n = None \<longrightarrow>
      Get t n w = (Returned (Inl ErrRepositoryNotRegistered), w))
   \<and> (\<forall>f r e. map_lookup w (Transaction.repositories t) n = Some f
          \<and> f (tx t) (ext w) = (Returned r, e) \<longrightarrow>
        Get t n w = (Returned (Inr r), w\<lparr>ext := e\<rparr>)
        \<and> (\<forall>r2 e2. f (tx t) e = (Returned r2, e2) \<longrightarrow>
              Get t n (snd (Get t n w)) = (Returned (Inr r2), w\<lparr>ext := e2\<rparr>)))
   \<and> (\<forall>f p e. map_lookup w (Transaction.repositories t) n = Some f
          \<and> f (tx t) (ext w) = (Panicked p, e) \<longrightarrow>
        Get t n w = (Panicked p, w\<lparr>ext := e\<rparr>))"
  by (auto simp: Get_def map_lookup_def split: option.splits)

text \<open>
  C5, on the scope of handle \<open>5\<close>: \<open>StockRepository\<close> is not registered; two calls for
  \<open>ProductRepository\<close> return two objects, at the addresses \<open>0\<close> and \<open>1\<close>, both with
  the handle \<open>5\<close>.
\<close>

theorem Get_contract_witness:
  "map_lookup world1 (Transaction.repositories scope1) ''StockRepository'' = None
   \<and> fst (Get scope1 ''StockRepository'' world1) = Returned (Inl ErrRepositoryNotRegistered)
   \<and> map_lookup world1 (Transaction.repositories scope1) ''ProductRepository''
        = Some productRepositoryFactory
   \<and> fst (Get scope1 ''ProductRepository'' world1) = Returned (Inr (ProductRepository 0 5))
   \<and> fst (Get scope1 ''ProductRepository'' (snd (Get scope1 ''ProductRepository'' world1)))
        = Returned (Inr (ProductRepository 1 5))"
proof -
  have unbound: "map_lookup world1 (Transaction.repositories scope1) ''StockRepository'' = None"
    by (simp add: map_lookup_def NewTransaction_def example_defs)
  have bound: "map_lookup world1 (Transaction.repositories scope1) ''ProductRepository''
                 = Some productRepositoryFactory"
    by (simp add: map_lookup_def NewTransaction_def scope1_def uow1_def world1_def world0_def)
  have first: "productRepositoryFactory (tx scope1) (ext world1)
                 = (Returned (ProductRepository 0 5), (ext world1)\<lparr>allocated := 1\<rparr>)"
    by (simp add: NewTransaction_def example_defs)
  have second: "productRepositoryFactory (tx scope1) ((ext world1)\<lparr>allocated := 1\<rparr>)
                 = (Returned (ProductRepository 1 5), (ext world1)\<lparr>allocated := 2\<rparr>)"
    by (simp add: NewTransaction_def example_defs)
  from Get_contract [of world1 scope1 "''StockRepository''"] unbound
  have a: "fst (Get scope1 ''StockRepository'' world1) = Returned (Inl ErrRepositoryNotRegistered)"
    by simp
  from Get_contract [of world1 scope1 "''ProductRepository''"] bound first second
  have b: "fst (Get scope1 ''ProductRepository'' world1) = Returned (Inr (ProductRepository 0 5))
         \<and> fst (Get scope1 ''ProductRepository'' (snd (Get scope1 ''ProductRepository'' world1)))
             = Returned (Inr (ProductRepository 1 5))"
    by (metis fst_conv)
  show ?thesis
    using unbound bound a b by simp
qed

text \<open>
  C7. \<open>GetAs\<close> on any implementation of \<open>TX\<close> leaves the state exactly as that
  implementation's \<open>Get\<close> leaves it; it passes on a panic and an error of \<open>Get\<close>
  unchanged; on a repository it returns the repository at type \<open>T\<close> when the type
  assertion holds and \<open>ErrInvalidRepositoryType\<close> when it does not. On a
  \<open>Transaction\<close> whose map does not bind the name it returns
  \<open>ErrRepositoryNotRegistered\<close> and changes nothing.
\<close>

theorem GetAs_contract:
  "snd (GetAs as_T t_Get n w) = snd (t_Get n w)
   \<and> (\<forall>p. fst (t_Get n w) = Panicked p \<longrightarrow> fst (GetAs as_T t_Get n w) = Panicked p)
   \<and> (\<forall>err. fst (t_Get n w) = Returned (Inl err) \<longrightarrow>
         fst (GetAs as_T t_Get n w) = Returned (Inl err))
   \<and> (\<forall>r. fst (t_Get n w) = Returned (Inr r) \<longrightarrow>
         fst (GetAs as_T t_Get n w)
           = (case as_T r of None \<Rightarrow> Returned (Inl ErrInvalidRepositoryType)
              | Some res \<Rightarrow> Returned (Inr res)))
   \<and> (map_lookup w' (Transaction.repositories t) n = None \<longrightarrow>
         GetAs as_T (Get t) n w' = (Returned (Inl ErrRepositoryNotRegistered), w'))"
  by (auto simp: GetAs_def Get_def split: prod.splits outcome.splits sum.splits option.splits)

text \<open>
  C7, on the scope of handle \<open>5\<close> at type \<open>*ProductRepository\<close>: \<open>OrderRepository\<close>
  resolves to a repository of another type, \<open>ProductRepository\<close> to one of this type,
  \<open>StockRepository\<close> is not registered.
\<close>

theorem GetAs_contract_witness:
  "fst (Get scope1 ''OrderRepository'' world1) = Returned (Inr (OrderRepository 0 5))
   \<and> as_ProductRepository (OrderRepository 0 5) = None
   \<and> fst (GetAs as_ProductRepository (Get scope1) ''OrderRepository'' world1)
        = Returned (Inl ErrInvalidRepositoryType)
   \<and> snd (GetAs as_ProductRepository (Get scope1) ''OrderRepository'' world1)
        = snd (Get scope1 ''OrderRepository'' world1)
   \<and> fst (Get scope1 ''ProductRepository'' world1) = Returned (Inr (ProductRepository 0 5))
   \<and> fst (GetAs as_ProductRepository (Get scope1) ''ProductRepository'' world1)
        = Returned (Inr (0, 5))
   \<and> map_lookup world1 (Transaction.repositories scope1) ''StockRepository'' = None
   \<and> GetAs as_ProductRepository (Get scope1) ''StockRepository'' world1
        = (Returned (Inl ErrRepositoryNotRegistered), world1)"
proof -
  have order: "fst (Get scope1 ''OrderRepository'' world1) = Returned (Inr (OrderRepository 0 5))"
    by (simp add: Get_def map_lookup_def NewTransaction_def example_defs)
  have product: "fst (Get scope1 ''ProductRepository'' world1)
                   = Returned (Inr (ProductRepository 0 5))"
    by (simp add: Get_def map_lookup_def NewTransaction_def example_defs)
  have unbound: "map_lookup world1 (Transaction.repositories scope1) ''StockRepository'' = None"
    by (simp add: map_lookup_def NewTransaction_def example_defs)
  have cast: "as_ProductRepository (OrderRepository 0 5) = None"
             "as_ProductRepository (ProductRepository 0 5) = Some (0, 5)"
    by (simp_all add: as_ProductRepository_def)
  show ?thesis
    using order product unbound cast
      GetAs_contract [of as_ProductRepository "Get scope1" "''OrderRepository''" world1
                         world1 scope1]
      GetAs_contract [of as_ProductRepository "Get scope1" "''ProductRepository''" world1
                         world1 scope1]
      GetAs_contract [of as_ProductRepository "Get scope1" "''StockRepository''" world1
                         world1 scope1]
    by simp
qed

section \<open>Do\<close>

text \<open>
  C4. When \<open>BeginTx\<close> fails, \<open>Do\<close> returns the error of \<open>BeginTx\<close> itself; the only call
  it makes is \<open>BeginTx\<close> and the store is as \<open>BeginTx\<close> left it: no scope is made, the
  function is not called (any other function gives the same result) and neither
  \<open>Commit\<close> nor \<open>Rollback\<close> is called (any other two give the same result).
\<close>

theorem Do_begin_fails:
  assumes "db_BeginTx q (db u) c w = (Inl err, w1)"
  shows "Do q u c fn w = (Returned (Some err), w1, [CallBeginTx])
       \<and> Do q u c fn' w = Do q u c fn w
       \<and> Do (q\<lparr>Commit := cm, Rollback := rb\<rparr>) u c fn w = Do q u c fn w"
  using assms
  by (auto simp: Do_def db_BeginTx_def split: prod.splits)

text \<open>C4, on the closed database \<open>0\<close>, with the function that would panic.\<close>

theorem Do_begin_fails_witness:
  "db_BeginTx (example_sql None) (db (uow1 0)) 7 world1
     = (Inl (ErrExternal ''sql: database is closed''), world1)
   \<and> Do (example_sql None) (uow1 0) 7 fn_panics world1
     = (Returned (Some (ErrExternal ''sql: database is closed'')), world1, [CallBeginTx])"
  using example_begin_closed [of None 7]
    Do_begin_fails [OF example_begin_closed [of None 7], of fn_panics]
  by simp

text \<open>
  C1. When the transaction has begun and the function returns an error, \<open>Do\<close> returns
  that very error; after the function it calls \<open>Rollback\<close> on the handle and nothing
  else, so the store is the one the function left, rolled back; \<open>Commit\<close> is not called
  (it is not among the calls, and any other \<open>Commit\<close> gives the same result).
\<close>

theorem Do_fn_error:
  assumes "db_BeginTx q (db u) c w = (Inr txh, w1)"
      and "fn c (NewTransaction txh (UnitOfWork.repositories u)) w1 = (Returned (Some err), w2)"
  shows "Do q u c fn w
           = (Returned (Some err), snd (tx_Rollback q txh w2),
              [CallBeginTx, CallNewTransaction txh, CallFn txh, CallRollback txh])
       \<and> (\<forall>h. CallCommit h \<notin> set (snd (snd (Do q u c fn w))))
       \<and> Do (q\<lparr>Commit := cm\<rparr>) u c fn w = Do q u c fn w"
  using assms
  by (auto simp: Do_def Do_body_def db_BeginTx_def tx_Rollback_def split: prod.splits)

text \<open>
  C1, with the function of the tests that fails on a foreign key: the error comes back
  as it is, the handle \<open>0\<close> is rolled back and not committed.
\<close>

theorem Do_fn_error_witness:
  "db_BeginTx (example_sql None) (db (uow1 1)) 7 world1 = (Inr 0, world2)
   \<and> fst (fn_fails 7 (NewTransaction 0 (UnitOfWork.repositories (uow1 1))) world2)
        = Returned (Some (ErrExternal ''foreign key constraint fails''))
   \<and> fst (Do (example_sql None) (uow1 1) 7 fn_fails world1)
        = Returned (Some (ErrExternal ''foreign key constraint fails''))
   \<and> snd (snd (Do (example_sql None) (uow1 1) 7 fn_fails world1))
        = [CallBeginTx, CallNewTransaction 0, CallFn 0, CallRollback 0]
   \<and> rolled_back (ext (fst (snd (Do (example_sql None) (uow1 1) 7 fn_fails world1)))) = [0]
   \<and> committed (ext (fst (snd (Do (example_sql None) (uow1 1) 7 fn_fails world1)))) = []"
proof -
  have fails: "fn_fails 7 (NewTransaction 0 (UnitOfWork.repositories (uow1 1))) world2
       = (Returned (Some (ErrExternal ''foreign key constraint fails'')),
          world2\<lparr>ext := (ext world2)\<lparr>allocated := 1\<rparr>\<rparr>)"
    by (simp add: Get_def map_lookup_def NewTransaction_def example_defs)
  show ?thesis
    using example_begin [of None 7] fails
      Do_fn_error [where fn = fn_fails, OF example_begin [of None 7] fails]
    by (simp add: tx_Rollback_def example_defs)
qed

text \<open>
  C2. When the transaction has begun and the function returns \<open>nil\<close>, \<open>Do\<close> calls
  \<open>Commit\<close> on the handle once, after the function, and returns what \<open>Commit\<close>
  returned: \<open>nil\<close> when it succeeded, its error when it failed.
\<close>

theorem Do_fn_nil:
  assumes "db_BeginTx q (db u) c w = (Inr txh, w1)"
      and "fn c (NewTransaction txh (UnitOfWork.repositories u)) w1 = (Returned None, w2)"
      and "tx_Commit q txh w2 = (cerr, w3)"
  shows "Do q u c fn w
           = (Returned cerr, snd (tx_Rollback q txh w3),
              [CallBeginTx, CallNewTransaction txh, CallFn txh, CallCommit txh,
               CallRollback txh])
       \<and> length (filter (\<lambda>x. \<exists>h. x = CallCommit h) (snd (snd (Do q u c fn w)))) = 1
       \<and> (cerr = None \<longrightarrow> fst (Do q u c fn w) = Returned None)
       \<and> (\<forall>e. cerr = Some e \<longrightarrow> fst (Do q u c fn w) = Returned (Some e))"
  using assms
  by (auto simp: Do_def Do_body_def split: prod.splits)

text \<open>
  C2, with the function of the tests that succeeds: on a driver that commits, \<open>Do\<close>
  returns \<open>nil\<close> and the handle \<open>0\<close> is committed; on a driver that answers an error to
  the commit, \<open>Do\<close> returns that error.
\<close>

theorem Do_fn_nil_witness:
  "db_BeginTx (example_sql None) (db (uow1 1)) 7 world1 = (Inr 0, world2)
   \<and> fst (fn_succeeds 7 (NewTransaction 0 (UnitOfWork.repositories (uow1 1))) world2)
        = Returned None
   \<and> Do (example_sql None) (uow1 1) 7 fn_succeeds world1
        = (Returned None,
           world2\<lparr>ext := \<lparr>began = 1, finished = [0], committed = [0], rolled_back = [],
                           allocated = 1\<rparr>\<rparr>,
           [CallBeginTx, CallNewTransaction 0, CallFn 0, CallCommit 0, CallRollback 0])
   \<and> fst (Do (example_sql (Some (ErrExternal ''driver: bad connection''))) (uow1 1) 7
             fn_succeeds world1)
        = Returned (Some (ErrExternal ''driver: bad connection''))"
proof -
  let ?w2 = "world2\<lparr>ext := (ext world2)\<lparr>allocated := 1\<rparr>\<rparr>"
  have succeeds: "fn_succeeds 7 (NewTransaction 0 (UnitOfWork.repositories (uow1 1))) world2
       = (Returned None, ?w2)"
    by (simp add: Get_def map_lookup_def NewTransaction_def example_defs)
  have commit_ok: "tx_Commit (example_sql None) 0 ?w2
       = (None, ?w2\<lparr>ext := (ext ?w2)\<lparr>finished := [0], committed := [0]\<rparr>\<rparr>)"
    by (simp add: tx_Commit_def example_defs)
  have commit_bad: "tx_Commit (example_sql (Some (ErrExternal ''driver: bad connection''))) 0 ?w2
       = (Some (ErrExternal ''driver: bad connection''),
          ?w2\<lparr>ext := (ext ?w2)\<lparr>finished := [0]\<rparr>\<rparr>)"
    by (simp add: tx_Commit_def example_defs)
  show ?thesis
    using example_begin [of None 7] succeeds
      Do_fn_nil [where fn = fn_succeeds, OF example_begin [of None 7] succeeds commit_ok]
      Do_fn_nil [where fn = fn_succeeds,
                 OF example_begin [of "Some (ErrExternal ''driver: bad connection'')" 7]
                    succeeds commit_bad]
    by (simp add: tx_Rollback_def example_defs)
qed

text \<open>
  C3. When the transaction has begun, whatever the function does (return \<open>nil\<close>,
  return an error, panic), \<open>Rollback\<close> is called on the handle, once, as the last call
  of \<open>Do\<close>, on the store the rest of \<open>Do\<close> left. When the function panics, \<open>Do\<close> rolls
  back and panics with the same value. When the function returns \<open>nil\<close> the rollback
  follows the commit; on a handle whose \<open>Rollback\<close> changes nothing once \<open>Commit\<close> has
  succeeded, a \<open>Do\<close> that returns \<open>nil\<close> leaves the store as the commit left it.
\<close>

theorem Do_deferred_rollback:
  assumes "db_BeginTx q (db u) c w = (Inr txh, w1)"
      and "fn c (NewTransaction txh (UnitOfWork.repositories u)) w1 = (r, w2)"
  shows "(case Do q u c fn w of (res, w', calls) \<Rightarrow>
            last calls = CallRollback txh
          \<and> length (filter (\<lambda>x. \<exists>h. x = CallRollback h) calls) = 1
          \<and> take 3 calls = [CallBeginTx, CallNewTransaction txh, CallFn txh]
          \<and> (\<forall>p. r = Panicked p \<longrightarrow>
                res = Panicked p \<and> w' = snd (tx_Rollback q txh w2)
                \<and> calls = [CallBeginTx, CallNewTransaction txh, CallFn txh, CallRollback txh])
          \<and> (\<forall>err. r = Returned (Some err) \<longrightarrow> w' = snd (tx_Rollback q txh w2))
          \<and> (r = Returned None \<longrightarrow>
                w' = snd (tx_Rollback q txh (snd (tx_Commit q txh w2))))
          \<and> (r = Returned None \<and> res = Returned None \<and> Rollback_noop_after_Commit q \<longrightarrow>
                w' = snd (tx_Commit q txh w2)))"
proof (cases r)
  case (Panicked p)
  with assms show ?thesis
    by (simp add: Do_def Do_body_def)
next
  case (Returned x)
  show ?thesis
  proof (cases x)
    case (Some err)
    with Returned assms show ?thesis
      by (simp add: Do_def Do_body_def)
  next
    case None
    obtain cerr e where cm: "Commit q txh (ext w2) = (cerr, e)"
      by (cases "Commit q txh (ext w2)")
    have noop: "cerr = None \<Longrightarrow> Rollback_noop_after_Commit q \<Longrightarrow> snd (Rollback q txh e) = e"
      using cm by (auto simp: Rollback_noop_after_Commit_def)
    from None Returned assms cm noop show ?thesis
      by (auto simp: Do_def Do_body_def tx_Commit_def tx_Rollback_def split: prod.splits)
  qed
qed

text \<open>
  C3, on the example connection source: when the function panics, \<open>Do\<close> panics with
  the same value after the handle \<open>0\<close> has been rolled back; when the function succeeds
  and the commit succeeds, the rollback that follows leaves the handle committed and
  not rolled back.
\<close>

theorem Do_deferred_rollback_witness:
  "db_BeginTx (example_sql None) (db (uow1 1)) 7 world1 = (Inr 0, world2)
   \<and> fn_panics 7 (NewTransaction 0 (UnitOfWork.repositories (uow1 1))) world2
        = (Panicked ''runtime error: invalid memory address'', world2)
   \<and> Do (example_sql None) (uow1 1) 7 fn_panics world1
        = (Panicked ''runtime error: invalid memory address'',
           world2\<lparr>ext := \<lparr>began = 1, finished = [0], committed = [], rolled_back = [0],
                           allocated = 0\<rparr>\<rparr>,
           [CallBeginTx, CallNewTransaction 0, CallFn 0, CallRollback 0])
   \<and> Rollback_noop_after_Commit (example_sql None)
   \<and> fst (Do (example_sql None) (uow1 1) 7 fn_succeeds world1) = Returned None
   \<and> last (snd (snd (Do (example_sql None) (uow1 1) 7 fn_succeeds world1))) = CallRollback 0
   \<and> fst (snd (Do (example_sql None) (uow1 1) 7 fn_succeeds world1))
        = world2\<lparr>ext := \<lparr>began = 1, finished = [0], committed = [0], rolled_back = [],
                          allocated = 1\<rparr>\<rparr>"
proof -
  let ?w2 = "world2\<lparr>ext := (ext world2)\<lparr>allocated := 1\<rparr>\<rparr>"
  have panics: "fn_panics 7 (NewTransaction 0 (UnitOfWork.repositories (uow1 1))) world2
       = (Panicked ''runtime error: invalid memory address'', world2)"
    by (simp add: fn_panics_def)
  have succeeds: "fn_succeeds 7 (NewTransaction 0 (UnitOfWork.repositories (uow1 1))) world2
       = (Returned None, ?w2)"
    by (simp add: Get_def map_lookup_def NewTransaction_def example_defs)
  have result: "fst (Do (example_sql None) (uow1 1) 7 fn_succeeds world1) = Returned None"
    by (simp add: Do_def Do_body_def db_BeginTx_def tx_Commit_def Get_def map_lookup_def
        NewTransaction_def example_defs)
  have commit: "snd (tx_Commit (example_sql None) 0 ?w2)
       = world2\<lparr>ext := \<lparr>began = 1, finished = [0], committed = [0], rolled_back = [],
                         allocated = 1\<rparr>\<rparr>"
    by (simp add: tx_Commit_def example_defs)
  have rollback: "snd (tx_Rollback (example_sql None) 0 world2)
       = world2\<lparr>ext := \<lparr>began = 1, finished = [0], committed = [], rolled_back = [0],
                         allocated = 0\<rparr>\<rparr>"
    by (simp add: tx_Rollback_def example_defs)
  show ?thesis
    using example_begin [of None 7] panics result commit rollback example_sql_noop [of None]
      Do_deferred_rollback [where fn = fn_panics, OF example_begin [of None 7] panics]
      Do_deferred_rollback [where fn = fn_succeeds, OF example_begin [of None 7] succeeds]
    by (auto simp: split_beta prod_eq_iff)
qed

section \<open>The map a scope shares with its unit of work\<close>

text \<open>
  C10. A scope made from a unit of work holds the address of the map the unit of work
  holds. \<open>Clear\<close> gives the unit of work a new, empty map at another address and leaves
  the old map as it was: the scope finds every name as before and \<open>Get\<close> on it returns
  what it returned before, while the unit of work has no name left. \<open>Register\<close> and
  \<open>Remove\<close> write to the map the scope holds: a name registered after the scope was
  made resolves on the scope to the new factory, and a name removed is no longer found
  by the scope.
\<close>

theorem Clear_leaves_scope_Register_Remove_reach_it:
  assumes "uow_ok u w"
      and "t = NewTransaction txh (UnitOfWork.repositories u)"
  shows "(case Clear u w of (u', w') \<Rightarrow>
            UnitOfWork.repositories u' \<noteq> Transaction.repositories t
          \<and> (\<forall>n. map_lookup w' (Transaction.repositories t) n
                    = map_lookup w (Transaction.repositories t) n)
          \<and> (\<forall>n. fst (Get t n w') = fst (Get t n w)
                \<and> ext (snd (Get t n w')) = ext (snd (Get t n w)))
          \<and> (\<forall>n. \<not> Has u' n w'))
       \<and> (\<forall>n f. \<not> Has u n w \<longrightarrow>
             map_lookup (snd (Register u n f w)) (Transaction.repositories t) n = Some f
             \<and> fst (Get t n (snd (Register u n f w)))
                 = (case fst (f txh (ext w)) of
                      Returned r \<Rightarrow> Returned (Inr r) | Panicked p \<Rightarrow> Panicked p))
       \<and> (\<forall>n. Has u n w \<longrightarrow>
             Get t n (snd (Remove u n w))
               = (Returned (Inl ErrRepositoryNotRegistered), snd (Remove u n w)))"
proof -
  from assms obtain r where r: "UnitOfWork.repositories u = Some r" "r < next_ref w"
    by (auto simp: uow_ok_def split: option.splits)
  have t: "Transaction.repositories t = Some r" "tx t = txh"
    using assms r by (simp_all add: NewTransaction_def)
  have clear: "Clear u w = (u\<lparr>UnitOfWork.repositories := Some (next_ref w)\<rparr>,
       w\<lparr>maps := (maps w)(next_ref w := Map.empty), next_ref := Suc (next_ref w)\<rparr>)"
    by (simp add: Clear_def make_map_def)
  have a: "case Clear u w of (u', w') \<Rightarrow>
            UnitOfWork.repositories u' \<noteq> Transaction.repositories t
          \<and> (\<forall>n. map_lookup w' (Transaction.repositories t) n
                    = map_lookup w (Transaction.repositories t) n)
          \<and> (\<forall>n. fst (Get t n w') = fst (Get t n w)
                \<and> ext (snd (Get t n w')) = ext (snd (Get t n w)))
          \<and> (\<forall>n. \<not> Has u' n w')"
    using r t
    by (auto simp: clear Get_def Has_def map_lookup_def
             split: option.splits prod.splits outcome.splits)
  have b: "\<forall>n f. \<not> Has u n w \<longrightarrow>
             map_lookup (snd (Register u n f w)) (Transaction.repositories t) n = Some f
             \<and> fst (Get t n (snd (Register u n f w)))
                 = (case fst (f txh (ext w)) of
                      Returned r \<Rightarrow> Returned (Inr r) | Panicked p \<Rightarrow> Panicked p)"
    using r t
    by (auto simp: Register_def Get_def Has_def store_defs
             split: option.splits prod.splits outcome.splits)
  have c: "\<forall>n. Has u n w \<longrightarrow>
             Get t n (snd (Remove u n w))
               = (Returned (Inl ErrRepositoryNotRegistered), snd (Remove u n w))"
    using r t
    by (auto simp: Remove_def Get_def Has_def store_defs split: option.splits)
  from a b c show ?thesis by blast
qed

text \<open>
  C10, on the scope of handle \<open>5\<close> made from the unit of work of the tests: after
  \<open>Clear\<close> the unit of work has lost \<open>ProductRepository\<close> and the scope still resolves
  it; \<open>StockRepository\<close>, registered after the scope was made, resolves on the scope;
  \<open>OrderRepository\<close>, removed after the scope was made, does not.
\<close>

theorem Clear_leaves_scope_Register_Remove_reach_it_witness:
  "uow_ok (uow1 1) world1
   \<and> scope1 = NewTransaction 5 (UnitOfWork.repositories (uow1 1))
   \<and> fst (Get scope1 ''ProductRepository'' world1) = Returned (Inr (ProductRepository 0 5))
   \<and> fst (Get scope1 ''ProductRepository'' (snd (Clear (uow1 1) world1)))
        = Returned (Inr (ProductRepository 0 5))
   \<and> \<not> Has (fst (Clear (uow1 1) world1)) ''ProductRepository'' (snd (Clear (uow1 1) world1))
   \<and> \<not> Has (uow1 1) ''StockRepository'' world1
   \<and> fst (Get scope1 ''StockRepository''
             (snd (Register (uow1 1) ''StockRepository'' orderRepositoryFactory world1)))
        = Returned (Inr (OrderRepository 0 5))
   \<and> Has (uow1 1) ''OrderRepository'' world1
   \<and> fst (Get scope1 ''OrderRepository'' (snd (Remove (uow1 1) ''OrderRepository'' world1)))
        = Returned (Inl ErrRepositoryNotRegistered)"
proof -
  have product: "fst (Get scope1 ''ProductRepository'' world1)
                   = Returned (Inr (ProductRepository 0 5))"
    by (simp add: Get_def map_lookup_def NewTransaction_def example_defs)
  have unused: "\<not> Has (uow1 1) ''StockRepository'' world1"
    by (simp add: Has_def map_lookup_def uow1_def world1_def world0_def)
  have bound: "Has (uow1 1) ''OrderRepository'' world1"
    by (simp add: Has_def map_lookup_def uow1_def world1_def world0_def)
  have new: "fst (orderRepositoryFactory 5 (ext world1)) = Returned (OrderRepository 0 5)"
    by (simp add: example_defs)
  show ?thesis
    using uow1_ok [of 1] scope1_def product unused bound new
      Clear_leaves_scope_Register_Remove_reach_it [OF uow1_ok [of 1] scope1_def]
    by (auto simp: split_beta)
qed

end
